theory Spec2Isabelle
  imports Complex_Main "HOL-Library.Sublist"
begin

section \<open>The dashboard's data reshaping pipeline (src/src/App.jsx)\<close>

subsection \<open>JavaScript values\<close>

text \<open>
  The records and the metadata are parsed JSON. A JSON value is a number, a string, a
  boolean, null, an array or an object; \<open>JUndefined\<close> is what reading an absent field
  gives. The pipeline never computes with a number: it copies it, and tests it for
  truthiness in \<^verbatim>\<open>||\<close>, so numbers are carried as reals (JSON has no NaN).
\<close>

datatype jsval =
    JUndefined
  | JNull
  | JBool bool
  | JNum real
  | JStr string
  | JArr "jsval list"
  | JObj "(string \<times> jsval) list"

text \<open>ToBoolean: undefined, null, false, 0 and the empty string are falsy.\<close>

fun truthy :: "jsval \<Rightarrow> bool" where
  "truthy JUndefined = False"
| "truthy JNull = False"
| "truthy (JBool b) = b"
| "truthy (JNum x) = (x \<noteq> 0)"
| "truthy (JStr s) = (s \<noteq> [])"
| "truthy (JArr xs) = True"
| "truthy (JObj kvs) = True"

text \<open>\<^verbatim>\<open>a || b\<close>: the left operand when it is truthy, the right one otherwise.\<close>

definition js_or :: "jsval \<Rightarrow> jsval \<Rightarrow> jsval" where
  "js_or a b = (if truthy a then a else b)"

text \<open>
  \<^verbatim>\<open>[...new Set(xs)]\<close>: the constructor adds the elements from left to right, \<^verbatim>\<open>add\<close>
  appends a value that is not in the set yet and ignores one that is, and spreading
  lists the set in insertion order. On strings SameValueZero is equality.
\<close>

definition set_add :: "'a list \<Rightarrow> 'a \<Rightarrow> 'a list" where
  "set_add acc x = (if x \<in> set acc then acc else acc @ [x])"

definition js_unique :: "'a list \<Rightarrow> 'a list" where
  "js_unique xs = foldl set_add [] xs"

text \<open>The position of the first occurrence of \<open>x\<close> in \<open>xs\<close> (\<open>length xs\<close> when there is none).\<close>

definition first_index :: "'a list \<Rightarrow> 'a \<Rightarrow> nat" where
  "first_index xs x = length (takeWhile (\<lambda>y. y \<noteq> x) xs)"

subsection \<open>Records and metadata\<close>

text \<open>
  One summary record, as the data model has it: \<open>item\<close>, \<open>demographic\<close> and \<open>group\<close> are
  string keys; the label and the five statistical fields are whatever JSON value the
  data file holds (\<open>JUndefined\<close> when absent). The field \<^verbatim>\<open>group\<close> is \<open>group_key\<close> and
  the field \<^verbatim>\<open>n\<close> is \<open>n_obs\<close> here.
\<close>

record summary_record =
  item :: string
  item_label :: jsval
  demographic :: string
  group_key :: string
  mean :: jsval
  sd :: jsval
  n_obs :: jsval
  ci_lower :: jsval
  ci_upper :: jsval

text \<open>The metadata; \<open>score_types_items\<close> is \<^verbatim>\<open>metadata.score_types.items\<close>.\<close>

record metadata_record =
  sample_size :: jsval
  demographics :: "string list"
  score_types_items :: "string list"
  score_types_scales :: "string list"

subsection \<open>The row object\<close>

text \<open>
  A pivoted row is an object literal whose keys are made at run time. The model keeps
  its own properties and its prototype, because \<^verbatim>\<open>row[k] = v\<close> is not a plain store for
  every key: \<^verbatim>\<open>__proto__\<close> is an accessor inherited from \<^verbatim>\<open>Object.prototype\<close>, whose
  setter replaces the prototype when \<open>v\<close> is an object or null, does nothing for any
  other value, and never makes an own property. Every other inherited property is a
  writable data property, so assigning to it makes an own property of the row.
\<close>

datatype jsproto = ObjectPrototype | ProtoNull | ProtoValue jsval

record js_object =
  own :: "string \<rightharpoonup> jsval"
  proto :: jsproto

text \<open>
  Whether the \<^verbatim>\<open>__proto__\<close> accessor is reached along the prototype chain: not below a
  null prototype, and not below a parsed object with a \<^verbatim>\<open>__proto__\<close> key of its own
  (\<^verbatim>\<open>JSON.parse\<close> defines it as a data property).
\<close>

fun inherits_proto_accessor :: "jsproto \<Rightarrow> bool" where
  "inherits_proto_accessor ObjectPrototype = True"
| "inherits_proto_accessor ProtoNull = False"
| "inherits_proto_accessor (ProtoValue (JObj kvs)) = (''__proto__'' \<notin> fst ` set kvs)"
| "inherits_proto_accessor (ProtoValue v) = True"

fun set_prototype :: "jsval \<Rightarrow> js_object \<Rightarrow> js_object" where
  "set_prototype JNull row = row\<lparr>proto := ProtoNull\<rparr>"
| "set_prototype (JArr xs) row = row\<lparr>proto := ProtoValue (JArr xs)\<rparr>"
| "set_prototype (JObj kvs) row = row\<lparr>proto := ProtoValue (JObj kvs)\<rparr>"
| "set_prototype v row = row"

text \<open>\<^verbatim>\<open>row[k] = v\<close>.\<close>

definition assign :: "string \<Rightarrow> jsval \<Rightarrow> js_object \<Rightarrow> js_object" where
  "assign k v row =
     (if k = ''__proto__'' \<and> own row k = None \<and> inherits_proto_accessor (proto row)
      then set_prototype v row
      else row\<lparr>own := (own row)(k \<mapsto> v)\<rparr>)"

subsection \<open>Filter stage (lines 72 to 80)\<close>

definition filteredData :: "summary_record list \<Rightarrow> string \<Rightarrow> summary_record list" where
  "filteredData summaries selectedDemographic =
     filter (\<lambda>d. demographic d = selectedDemographic) summaries"

definition itemData :: "metadata_record \<Rightarrow> summary_record list \<Rightarrow> summary_record list" where
  "itemData metadata filtered = filter (\<lambda>d. item d \<in> set (score_types_items metadata)) filtered"

definition scaleData :: "metadata_record \<Rightarrow> summary_record list \<Rightarrow> summary_record list" where
  "scaleData metadata filtered = filter (\<lambda>d. item d \<in> set (score_types_scales metadata)) filtered"

subsection \<open>Group discovery (line 83)\<close>

definition groups :: "summary_record list \<Rightarrow> string list" where
  "groups filtered = js_unique (map group_key filtered)"

subsection \<open>Pivot stage (lines 86 to 102)\<close>

text \<open>The body of the \<^verbatim>\<open>forEach\<close>: four assignments, in the source's order.\<close>

definition write_group :: "summary_record \<Rightarrow> js_object \<Rightarrow> js_object" where
  "write_group r row =
     assign (group_key r @ ''_sd'') (sd r)
       (assign (group_key r @ ''_n'') (n_obs r)
         (assign (group_key r @ ''_ci'') (JArr [ci_lower r, ci_upper r])
           (assign (group_key r) (mean r) row)))"

text \<open>\<^verbatim>\<open>itemRows[0]?.item_label\<close>: undefined when there is no first row.\<close>

definition first_item_label :: "summary_record list \<Rightarrow> jsval" where
  "first_item_label itemRows = (case itemRows of [] \<Rightarrow> JUndefined | r # rs \<Rightarrow> item_label r)"

text \<open>The object literal of lines 90 to 93.\<close>

definition initial_row :: "string \<Rightarrow> summary_record list \<Rightarrow> js_object" where
  "initial_row it itemRows =
     \<lparr>own = [''item'' \<mapsto> JStr it, ''label'' \<mapsto> js_or (first_item_label itemRows) (JStr it)],
      proto = ObjectPrototype\<rparr>"

text \<open>The function mapped over the items (lines 88 to 101).\<close>

definition make_row :: "summary_record list \<Rightarrow> string \<Rightarrow> js_object" where
  "make_row data it =
     (let itemRows = filter (\<lambda>d. item d = it) data
      in foldl (\<lambda>row r. write_group r row) (initial_row it itemRows) itemRows)"

definition prepareChartData :: "summary_record list \<Rightarrow> js_object list" where
  "prepareChartData data = map (make_row data) (js_unique (map item data))"

text \<open>The keys that a record of group \<open>g\<close> writes.\<close>

definition group_keys :: "string \<Rightarrow> string list" where
  "group_keys g = [g, g @ ''_ci'', g @ ''_n'', g @ ''_sd'']"

text \<open>
  Key \<open>k\<close> is written again, after record \<open>r\<close>, by a record of the same item and
  another group: the keys of two groups can coincide, as \<^verbatim>\<open>X_n\<close> is both the sample size
  of group \<^verbatim>\<open>X\<close> and the mean of a group named \<^verbatim>\<open>X_n\<close>.
\<close>

definition overwritten :: "summary_record list \<Rightarrow> summary_record \<Rightarrow> string \<Rightarrow> bool" where
  "overwritten post r k =
     (\<exists>r' \<in> set post. item r' = item r \<and> group_key r' \<noteq> group_key r \<and>
        k \<in> set (group_keys (group_key r')))"

text \<open>Some record of item \<open>i\<close> writes key \<open>k\<close>.\<close>

definition written :: "summary_record list \<Rightarrow> string \<Rightarrow> string \<Rightarrow> bool" where
  "written data i k = (\<exists>r \<in> set data. item r = i \<and> k \<in> set (group_keys (group_key r)))"

subsection \<open>Selection-driven recomputation (lines 72 to 106)\<close>

record dashboard =
  dash_groups :: "string list"
  dash_chartData :: "js_object list"

text \<open>The subset that the pivot is given: line 104.\<close>

definition selected_subset ::
  "metadata_record \<Rightarrow> string \<Rightarrow> summary_record list \<Rightarrow> summary_record list" where
  "selected_subset metadata selectedView filtered =
     (if selectedView = ''items'' then itemData metadata filtered
      else scaleData metadata filtered)"

definition recompute ::
  "summary_record list \<Rightarrow> metadata_record \<Rightarrow> string \<Rightarrow> string \<Rightarrow> dashboard" where
  "recompute summaries metadata selectedDemographic selectedView =
     (let filtered = filteredData summaries selectedDemographic
      in \<lparr>dash_groups = groups filtered,
          dash_chartData =
            (if selectedView = ''items'' then prepareChartData (itemData metadata filtered)
             else prepareChartData (scaleData metadata filtered))\<rparr>)"

subsection \<open>Loading (lines 20 to 69)\<close>

record app_state =
  summaries :: "summary_record list"
  metadata :: "metadata_record option"
  selectedDemographic :: string
  selectedView :: string
  loading :: bool
  error :: "string option"

definition initial_state :: app_state where
  "initial_state =
     \<lparr>summaries = [], metadata = None, selectedDemographic = ''Overall'',
      selectedView = ''items'', loading = True, error = None\<rparr>"

text \<open>
  One read, \<^verbatim>\<open>fetch(...).then(r => r.json())\<close>: the promise is rejected (the fetch
  failed or the body did not parse) or fulfilled with the parsed value.
\<close>

datatype 'a read_result = Rejected | Fulfilled 'a

definition load_failure_message :: string where
  "load_failure_message = ''Failed to load data. Please run the R scripts first.''"

text \<open>
  The state updates of the effect, in the order the handlers issue them.
  \<^verbatim>\<open>Promise.all\<close> is fulfilled when both reads are, and rejected as soon as one is; the
  \<^verbatim>\<open>catch\<close> handler ignores the reason.
\<close>

definition load_updates ::
  "summary_record list read_result \<Rightarrow> metadata_record read_result \<Rightarrow>
   (app_state \<Rightarrow> app_state) list" where
  "load_updates summariesRead metadataRead =
     (case (summariesRead, metadataRead) of
        (Fulfilled summariesData, Fulfilled metadataData) \<Rightarrow>
          [\<lambda>st. st\<lparr>summaries := summariesData\<rparr>,
           \<lambda>st. st\<lparr>metadata := Some metadataData\<rparr>,
           \<lambda>st. st\<lparr>loading := False\<rparr>]
      | _ \<Rightarrow>
          [\<lambda>st. st\<lparr>error := Some load_failure_message\<rparr>,
           \<lambda>st. st\<lparr>loading := False\<rparr>])"

definition apply_updates :: "(app_state \<Rightarrow> app_state) list \<Rightarrow> app_state \<Rightarrow> app_state" where
  "apply_updates us st = foldl (\<lambda>s u. u s) st us"

text \<open>
  A render may run after each update (when the updates are not batched) or only after
  the last one: the states a render can see are those after a prefix of the updates.
\<close>

definition load_state ::
  "summary_record list read_result \<Rightarrow> metadata_record read_result \<Rightarrow> nat \<Rightarrow> app_state" where
  "load_state summariesRead metadataRead k =
     apply_updates (take k (load_updates summariesRead metadataRead)) initial_state"

definition loaded_state ::
  "summary_record list read_result \<Rightarrow> metadata_record read_result \<Rightarrow> app_state" where
  "loaded_state summariesRead metadataRead =
     apply_updates (load_updates summariesRead metadataRead) initial_state"

datatype js_error = TypeError

datatype view = LoadingView | ErrorView string | DashboardView dashboard

text \<open>
  The component body behind the two guards (lines 71 to 297): the reshaping of lines 72
  to 106, and the markup, which reads \<^verbatim>\<open>metadata.sample_size\<close> and so throws when
  \<open>metadata\<close> is still null.
\<close>

definition dashboard_view :: "app_state \<Rightarrow> js_error + view" where
  "dashboard_view st =
     (case metadata st of
        None \<Rightarrow> Inl TypeError
      | Some m \<Rightarrow>
          Inr (DashboardView
            (recompute (summaries st) m (selectedDemographic st) (selectedView st))))"

text \<open>
  The component: \<^verbatim>\<open>if (loading) return ...\<close> and \<^verbatim>\<open>if (error) return ...\<close> come before
  line 72. The state \<open>error\<close> is null or a string, and a string is truthy unless empty.
\<close>

definition render :: "app_state \<Rightarrow> js_error + view" where
  "render st =
     (if loading st then Inr LoadingView
      else (case error st of
              None \<Rightarrow> dashboard_view st
            | Some msg \<Rightarrow> if msg \<noteq> [] then Inr (ErrorView msg) else dashboard_view st))"

subsection \<open>Example records\<close>

definition example_record ::
  "string \<Rightarrow> jsval \<Rightarrow> string \<Rightarrow> string \<Rightarrow> real \<Rightarrow> real \<Rightarrow> summary_record" where
  "example_record it lbl dem g m k =
     \<lparr>item = it, item_label = lbl, demographic = dem, group_key = g, mean = JNum m,
      sd = JNum 1, n_obs = JNum k, ci_lower = JNum (m - 1), ci_upper = JNum (m + 1)\<rparr>"

section \<open>Properties of the building blocks\<close>

subsection \<open>Distinct values in first-occurrence order\<close>

lemma js_unique_snoc: "js_unique (xs @ [x]) = set_add (js_unique xs) x"
  by (simp add: js_unique_def)

lemma js_unique_Nil: "js_unique [] = []"
  by (simp add: js_unique_def)

lemma set_js_unique: "set (js_unique xs) = set xs"
  by (induction xs rule: rev_induct) (auto simp: js_unique_Nil js_unique_snoc set_add_def)

lemma distinct_js_unique: "distinct (js_unique xs)"
  by (induction xs rule: rev_induct) (auto simp: js_unique_Nil js_unique_snoc set_add_def set_js_unique)

lemma first_index_less: "x \<in> set xs \<Longrightarrow> first_index xs x < length xs"
  unfolding first_index_def by (induction xs) auto

lemma first_index_append: "x \<in> set xs \<Longrightarrow> first_index (xs @ ys) x = first_index xs x"
  unfolding first_index_def by (induction xs) auto

lemma first_index_new: "x \<notin> set xs \<Longrightarrow> first_index (xs @ [x]) x = length xs"
  unfolding first_index_def by (induction xs) auto

lemma first_index_order_js_unique:
  "sorted_wrt (<) (map (first_index xs) (js_unique xs))"
proof (induction xs rule: rev_induct)
  case Nil
  show ?case by (simp add: js_unique_Nil)
next
  case (snoc x xs)
  have same: "map (first_index (xs @ [x])) (js_unique xs) = map (first_index xs) (js_unique xs)"
    by (rule map_cong) (simp_all add: set_js_unique first_index_append)
  show ?case
  proof (cases "x \<in> set xs")
    case True
    then have "js_unique (xs @ [x]) = js_unique xs"
      by (simp add: js_unique_snoc set_add_def set_js_unique)
    then show ?thesis
      using snoc by (simp only: same)
  next
    case False
    then have u: "js_unique (xs @ [x]) = js_unique xs @ [x]"
      by (simp add: js_unique_snoc set_add_def set_js_unique)
    have "\<forall>y\<in>set (js_unique xs). first_index xs y < first_index (xs @ [x]) x"
      using False by (simp add: set_js_unique first_index_new first_index_less)
    then show ?thesis
      using snoc by (simp add: u same sorted_wrt_append)
  qed
qed

lemma length_js_unique: "length (js_unique xs) = card (set xs)"
  using distinct_card [OF distinct_js_unique, of xs] by (simp add: set_js_unique)

subsection \<open>Assignments to a row\<close>

lemma own_set_prototype: "own (set_prototype v row) = own row"
  by (cases v) simp_all

lemma own_assign_neq: "k' \<noteq> k \<Longrightarrow> own (assign k' v row) k = own row k"
  by (simp add: assign_def own_set_prototype)

lemma own_assign_eq: "k \<noteq> ''__proto__'' \<Longrightarrow> own (assign k v row) k = Some v"
  by (simp add: assign_def)

lemma own_assign_neq': "k \<noteq> k' \<Longrightarrow> own (assign k' v row) k = own row k"
  by (simp add: assign_def own_set_prototype)

lemma own_assign_dom: "k \<in> dom (own row) \<Longrightarrow> k \<in> dom (own (assign k' v row))"
  by (cases "k' = k") (auto simp add: assign_def own_set_prototype)

lemma suffix_neq: "s \<noteq> [] \<Longrightarrow> last s \<noteq> last k \<Longrightarrow> g @ s \<noteq> k"
  by (metis last_appendR)

lemma suffixed_not_proto:
  "g @ ''_ci'' \<noteq> ''__proto__''" "g @ ''_n'' \<noteq> ''__proto__''" "g @ ''_sd'' \<noteq> ''__proto__''"
  by (rule suffix_neq; simp)+

lemma suffixed_not_item:
  "g @ ''_ci'' \<noteq> ''item''" "g @ ''_n'' \<noteq> ''item''" "g @ ''_sd'' \<noteq> ''item''"
  by (rule suffix_neq; simp)+

lemma suffixed_not_label:
  "g @ ''_ci'' \<noteq> ''label''" "g @ ''_n'' \<noteq> ''label''" "g @ ''_sd'' \<noteq> ''label''"
  by (rule suffix_neq; simp)+

lemma not_suffixed: "g \<noteq> g @ ''_ci''" "g \<noteq> g @ ''_n''" "g \<noteq> g @ ''_sd''"
  by simp_all

lemma own_write_group_other:
  "k \<notin> set (group_keys (group_key r)) \<Longrightarrow> own (write_group r row) k = own row k"
  by (simp add: write_group_def group_keys_def own_assign_neq')

lemma own_write_group_mean:
  "group_key r \<noteq> ''__proto__'' \<Longrightarrow> own (write_group r row) (group_key r) = Some (mean r)"
  by (simp add: write_group_def own_assign_neq own_assign_eq)

lemma own_write_group_ci:
  "own (write_group r row) (group_key r @ ''_ci'') = Some (JArr [ci_lower r, ci_upper r])"
  by (simp add: write_group_def own_assign_neq own_assign_eq suffixed_not_proto)

lemma own_write_group_n:
  "own (write_group r row) (group_key r @ ''_n'') = Some (n_obs r)"
  by (simp add: write_group_def own_assign_neq own_assign_eq suffixed_not_proto)

lemma own_write_group_sd:
  "own (write_group r row) (group_key r @ ''_sd'') = Some (sd r)"
  by (simp add: write_group_def own_assign_eq suffixed_not_proto)

lemma own_write_group_dom: "k \<in> dom (own row) \<Longrightarrow> k \<in> dom (own (write_group r row))"
  unfolding write_group_def by (intro own_assign_dom)

lemma own_foldl_other:
  "\<forall>r \<in> set rs. k \<notin> set (group_keys (group_key r)) \<Longrightarrow>
   own (foldl (\<lambda>row r. write_group r row) row rs) k = own row k"
  by (induction rs arbitrary: row) (simp_all add: own_write_group_other)

lemma own_foldl_dom:
  "k \<in> dom (own row) \<Longrightarrow> k \<in> dom (own (foldl (\<lambda>row r. write_group r row) row rs))"
proof (induction rs arbitrary: row)
  case Nil
  then show ?case by simp
next
  case (Cons r rs)
  from Cons.prems have "k \<in> dom (own (write_group r row))"
    by (rule own_write_group_dom)
  then show ?case
    using Cons.IH by simp
qed

subsection \<open>The row of one item\<close>

lemma make_row_split:
  "make_row (pre @ r # post) (item r) =
     foldl (\<lambda>row r. write_group r row)
       (write_group r
         (foldl (\<lambda>row r. write_group r row)
           (initial_row (item r) (filter (\<lambda>d. item d = item r) (pre @ r # post)))
           (filter (\<lambda>d. item d = item r) pre)))
       (filter (\<lambda>d. item d = item r) post)"
  by (simp add: make_row_def)

lemma own_make_row_last:
  assumes "\<forall>r' \<in> set post. item r' = item r \<longrightarrow> k \<notin> set (group_keys (group_key r'))"
  shows "\<exists>row. own (make_row (pre @ r # post) (item r)) k = own (write_group r row) k"
proof -
  have "\<forall>r' \<in> set (filter (\<lambda>d. item d = item r) post). k \<notin> set (group_keys (group_key r'))"
    using assms by simp
  then show ?thesis
    unfolding make_row_split by (blast intro: own_foldl_other)
qed

lemma not_overwritten:
  assumes "\<forall>r' \<in> set post. item r' = item r \<longrightarrow> group_key r' \<noteq> group_key r"
    and "\<not> overwritten post r k"
  shows "\<forall>r' \<in> set post. item r' = item r \<longrightarrow> k \<notin> set (group_keys (group_key r'))"
  using assms unfolding overwritten_def by blast

lemma own_make_row_unwritten:
  assumes "\<not> written data i k"
  shows "own (make_row data i) k = own (initial_row i (filter (\<lambda>d. item d = i) data)) k"
proof -
  have "\<forall>r \<in> set (filter (\<lambda>d. item d = i) data). k \<notin> set (group_keys (group_key r))"
    using assms unfolding written_def by auto
  then show ?thesis
    unfolding make_row_def Let_def by (rule own_foldl_other)
qed

lemma written_item: "written data i ''item'' \<longleftrightarrow> (\<exists>r \<in> set data. item r = i \<and> group_key r = ''item'')"
  unfolding written_def group_keys_def
  using suffixed_not_item by (auto simp: eq_commute)

lemma written_label: "written data i ''label'' \<longleftrightarrow> (\<exists>r \<in> set data. item r = i \<and> group_key r = ''label'')"
  unfolding written_def group_keys_def
  using suffixed_not_label by (auto simp: eq_commute)

lemma first_rows:
  assumes "\<forall>r' \<in> set pre. item r' \<noteq> item r"
  shows "filter (\<lambda>d. item d = item r) pre = []"
  using assms by (simp add: filter_empty_conv)

lemma make_row_item:
  assumes "\<forall>r' \<in> set data. item r' = i \<longrightarrow> group_key r' \<noteq> ''item''"
  shows "own (make_row data i) ''item'' = Some (JStr i)"
proof -
  have "\<not> written data i ''item''"
    using assms by (auto simp: written_item)
  then show ?thesis
    by (simp add: own_make_row_unwritten initial_row_def)
qed

lemma make_row_label:
  assumes "\<forall>r' \<in> set pre. item r' \<noteq> item r"
    and "\<forall>r' \<in> set (pre @ r # post). item r' = item r \<longrightarrow> group_key r' \<noteq> ''label''"
  shows "own (make_row (pre @ r # post) (item r)) ''label'' = Some (js_or (item_label r) (JStr (item r)))"
proof -
  have "\<not> written (pre @ r # post) (item r) ''label''"
    using assms(2) by (auto simp: written_label)
  then have "own (make_row (pre @ r # post) (item r)) ''label'' =
      own (initial_row (item r) (filter (\<lambda>d. item d = item r) (pre @ r # post))) ''label''"
    by (rule own_make_row_unwritten)
  also have "\<dots> = Some (js_or (item_label r) (JStr (item r)))"
    by (simp add: first_rows [OF assms(1)] initial_row_def first_item_label_def)
  finally show ?thesis .
qed

lemma make_row_in_output: "i \<in> item ` set data \<Longrightarrow> make_row data i \<in> set (prepareChartData data)"
  by (simp add: prepareChartData_def set_js_unique)

subsection \<open>Evaluating a row on concrete records\<close>

lemmas eval_row = make_row_def initial_row_def first_item_label_def js_or_def write_group_def
  assign_def example_record_def

lemma proto_group_makes_no_key:
  "own (make_row [example_record ''a'' (JStr ''A'') ''Overall'' ''__proto__'' 1 10] ''a'')
     ''__proto__'' = None"
  by (simp add: eval_row)

subsection \<open>Filtering\<close>

lemma count_list_filter: "P r \<Longrightarrow> count_list (filter P xs) r = count_list xs r"
  by (induction xs) simp_all

subsection \<open>Keys of a row\<close>

lemma own_initial_row_other:
  "k \<noteq> ''item'' \<Longrightarrow> k \<noteq> ''label'' \<Longrightarrow> own (initial_row i rows) k = None"
  by (simp add: initial_row_def)

lemma dom_make_row_written:
  assumes "r \<in> set data" and "\<And>row. k \<in> dom (own (write_group r row))"
  shows "k \<in> dom (own (make_row data (item r)))"
proof -
  from assms(1) obtain pre post where "data = pre @ r # post"
    by (auto simp: in_set_conv_decomp)
  then show ?thesis
    unfolding make_row_split by (simp only: make_row_split own_foldl_dom assms(2))
qed

subsection \<open>The states of a load\<close>

lemma load_state_failure:
  assumes "summariesRead = Rejected \<or> metadataRead = Rejected"
  shows "load_state summariesRead metadataRead k =
     (if k = 0 then initial_state
      else if k = 1 then initial_state\<lparr>error := Some load_failure_message\<rparr>
      else initial_state\<lparr>error := Some load_failure_message, loading := False\<rparr>)"
  using assms
  by (auto simp: load_state_def load_updates_def apply_updates_def take_Cons'
      split: read_result.splits)

lemma load_state_success:
  "load_state (Fulfilled s) (Fulfilled m) k =
     (if k = 0 then initial_state
      else if k = 1 then initial_state\<lparr>summaries := s\<rparr>
      else if k = 2 then initial_state\<lparr>summaries := s, metadata := Some m\<rparr>
      else initial_state\<lparr>summaries := s, metadata := Some m, loading := False\<rparr>)"
  by (auto simp: load_state_def load_updates_def apply_updates_def take_Cons')

lemma loaded_state_failure:
  assumes "summariesRead = Rejected \<or> metadataRead = Rejected"
  shows "loaded_state summariesRead metadataRead =
     initial_state\<lparr>error := Some load_failure_message, loading := False\<rparr>"
  using assms
  by (auto simp: loaded_state_def load_updates_def apply_updates_def split: read_result.splits)

lemma loaded_state_success:
  "loaded_state (Fulfilled s) (Fulfilled m) =
     initial_state\<lparr>summaries := s, metadata := Some m, loading := False\<rparr>"
  by (simp add: loaded_state_def load_updates_def apply_updates_def)

lemma message_not_empty: "load_failure_message \<noteq> []"
  by (simp add: load_failure_message_def)

lemma read_cases:
  "(summariesRead = Rejected \<or> metadataRead = Rejected) \<or>
   (\<exists>s m. summariesRead = Fulfilled s \<and> metadataRead = Fulfilled m)"
  by (cases summariesRead; cases metadataRead) simp_all

lemma render_load_state_failure:
  assumes "summariesRead = Rejected \<or> metadataRead = Rejected"
  shows "render (load_state summariesRead metadataRead k) =
     (if k = 0 \<or> k = 1 then Inr LoadingView else Inr (ErrorView load_failure_message))"
  by (simp add: load_state_failure [OF assms] render_def initial_state_def message_not_empty)

lemma render_load_state_success:
  "render (load_state (Fulfilled s) (Fulfilled m) k) =
     (if k = 0 \<or> k = 1 \<or> k = 2 then Inr LoadingView
      else Inr (DashboardView (recompute s m ''Overall'' ''items'')))"
  by (simp add: load_state_success render_def dashboard_view_def initial_state_def)

lemma render_load_state_no_throw:
  "render (load_state summariesRead metadataRead k) \<noteq> Inl TypeError"
  using read_cases [of summariesRead metadataRead]
  by (auto simp: render_load_state_failure render_load_state_success split: if_splits)

lemma passed_guards_both_written:
  assumes "\<not> loading (load_state summariesRead metadataRead k)"
    and "error (load_state summariesRead metadataRead k) = None"
  shows "\<exists>s' m'. summariesRead = Fulfilled s' \<and> metadataRead = Fulfilled m' \<and>
         summaries (load_state summariesRead metadataRead k) = s' \<and>
         metadata (load_state summariesRead metadataRead k) = Some m'"
proof -
  from read_cases [of summariesRead metadataRead] show ?thesis
  proof
    assume f: "summariesRead = Rejected \<or> metadataRead = Rejected"
    from assms have False
      by (simp add: load_state_failure [OF f] initial_state_def split: if_splits)
    then show ?thesis ..
  next
    assume "\<exists>s m. summariesRead = Fulfilled s \<and> metadataRead = Fulfilled m"
    then obtain s m where ok: "summariesRead = Fulfilled s" "metadataRead = Fulfilled m"
      by blast
    from assms(1) have "load_state summariesRead metadataRead k =
        initial_state\<lparr>summaries := s, metadata := Some m, loading := False\<rparr>"
      by (simp add: ok load_state_success initial_state_def split: if_splits)
    then show ?thesis
      by (simp add: ok)
  qed
qed

text \<open>The end-to-end scenario of the specification: one record, one row, one group.\<close>

lemma end_to_end_scenario:
  "render (loaded_state
     (Fulfilled [\<lparr>item = ''i1'', item_label = JStr ''Item One'', demographic = ''Overall'',
                  group_key = ''All'', mean = JNum 3.2, sd = JNum 0.8, n_obs = JNum 150,
                  ci_lower = JNum 3.0, ci_upper = JNum 3.4\<rparr>])
     (Fulfilled \<lparr>sample_size = JNum 150, demographics = [''Overall''],
                 score_types_items = [''i1''], score_types_scales = []\<rparr>)) =
   Inr (DashboardView
     \<lparr>dash_groups = [''All''],
      dash_chartData =
        [\<lparr>own = [''item'' \<mapsto> JStr ''i1'', ''label'' \<mapsto> JStr ''Item One'',
                 ''All'' \<mapsto> JNum 3.2, ''All_ci'' \<mapsto> JArr [JNum 3.0, JNum 3.4],
                 ''All_n'' \<mapsto> JNum 150, ''All_sd'' \<mapsto> JNum 0.8],
          proto = ObjectPrototype\<rparr>]\<rparr>)"
  by (simp add: loaded_state_success render_def dashboard_view_def initial_state_def
      recompute_def filteredData_def itemData_def groups_def js_unique_def set_add_def
      prepareChartData_def eval_row)

section \<open>The claims\<close>

subsection \<open>C1: the statistical values of the last record\<close>

text \<open>
  C1, as the code has it. Let \<open>r\<close> be the last record of the list with its (item, group)
  pair. The row of its item is a row of the pivot, and it holds \<open>r\<close>'s values: the key
  \<open>group\<close> holds the mean, \<open>group_ci\<close> the list of the two bounds, \<open>group_n\<close> the sample size
  and \<open>group_sd\<close> the standard deviation; each of them provided that no later record of
  the same item and another group writes the same key, and for the key \<open>group\<close> itself
  provided that the group is not named \<^verbatim>\<open>__proto__\<close>. With a unique pair the values pass
  through unchanged; with duplicates the later record wins.
\<close>

theorem pivot_carries_last_record:
  assumes "data = pre @ r # post"
    and "\<forall>r' \<in> set post. item r' = item r \<longrightarrow> group_key r' \<noteq> group_key r"
  shows "make_row data (item r) \<in> set (prepareChartData data) \<and>
    (group_key r \<noteq> ''__proto__'' \<and> \<not> overwritten post r (group_key r) \<longrightarrow>
       own (make_row data (item r)) (group_key r) = Some (mean r)) \<and>
    (\<not> overwritten post r (group_key r @ ''_ci'') \<longrightarrow>
       own (make_row data (item r)) (group_key r @ ''_ci'') = Some (JArr [ci_lower r, ci_upper r])) \<and>
    (\<not> overwritten post r (group_key r @ ''_n'') \<longrightarrow>
       own (make_row data (item r)) (group_key r @ ''_n'') = Some (n_obs r)) \<and>
    (\<not> overwritten post r (group_key r @ ''_sd'') \<longrightarrow>
       own (make_row data (item r)) (group_key r @ ''_sd'') = Some (sd r))"
proof -
  have last: "\<not> overwritten post r k \<Longrightarrow>
      \<exists>row. own (make_row data (item r)) k = own (write_group r row) k" for k
    unfolding assms(1) by (rule own_make_row_last) (rule not_overwritten [OF assms(2)])
  have "make_row data (item r) \<in> set (prepareChartData data)"
    by (rule make_row_in_output) (simp add: assms(1))
  moreover have "own (make_row data (item r)) (group_key r) = Some (mean r)"
    if "group_key r \<noteq> ''__proto__''" "\<not> overwritten post r (group_key r)"
    using last [OF that(2)] by (auto simp: own_write_group_mean [OF that(1)])
  moreover have "own (make_row data (item r)) (group_key r @ ''_ci'') = Some (JArr [ci_lower r, ci_upper r])"
    if "\<not> overwritten post r (group_key r @ ''_ci'')"
    using last [OF that] by (auto simp: own_write_group_ci)
  moreover have "own (make_row data (item r)) (group_key r @ ''_n'') = Some (n_obs r)"
    if "\<not> overwritten post r (group_key r @ ''_n'')"
    using last [OF that] by (auto simp: own_write_group_n)
  moreover have "own (make_row data (item r)) (group_key r @ ''_sd'') = Some (sd r)"
    if "\<not> overwritten post r (group_key r @ ''_sd'')"
    using last [OF that] by (auto simp: own_write_group_sd)
  ultimately show ?thesis by blast
qed

text \<open>The duplicate of the specification: two records of item a and group X; the later wins.\<close>

theorem pivot_carries_last_record_witness:
  "own (make_row [example_record ''a'' (JStr ''A'') ''Overall'' ''X'' 1 10,
                  example_record ''a'' (JStr ''A'') ''Overall'' ''X'' 2 20] ''a'') ''X'' = Some (JNum 2) \<and>
   own (make_row [example_record ''a'' (JStr ''A'') ''Overall'' ''X'' 1 10,
                  example_record ''a'' (JStr ''A'') ''Overall'' ''X'' 2 20] ''a'') ''X_n'' = Some (JNum 20)"
  using pivot_carries_last_record [of
      "[example_record ''a'' (JStr ''A'') ''Overall'' ''X'' 1 10,
        example_record ''a'' (JStr ''A'') ''Overall'' ''X'' 2 20]"
      "[example_record ''a'' (JStr ''A'') ''Overall'' ''X'' 1 10]"
      "example_record ''a'' (JStr ''A'') ''Overall'' ''X'' 2 20" "[]"]
  by (simp add: example_record_def overwritten_def)

text \<open>
  As the claim is written it fails when two groups share a key: after a record of group
  \<^verbatim>\<open>X\<close> with sample size 10, a record of the same item and of group \<^verbatim>\<open>X_n\<close> with mean 5
  stores its mean under \<^verbatim>\<open>X_n\<close>.
\<close>

theorem pivot_key_collision_counterexample:
  "own (make_row [example_record ''a'' (JStr ''A'') ''Overall'' ''X'' 1 10,
                  example_record ''a'' (JStr ''A'') ''Overall'' ''X_n'' 5 50] ''a'') (''X'' @ ''_n'')
     \<noteq> Some (n_obs (example_record ''a'' (JStr ''A'') ''Overall'' ''X'' 1 10)) \<and>
   own (make_row [example_record ''a'' (JStr ''A'') ''Overall'' ''X'' 1 10,
                  example_record ''a'' (JStr ''A'') ''Overall'' ''X_n'' 5 50] ''a'') ''X_n''
     = Some (JNum 5)"
  by (simp add: eval_row)

subsection \<open>C2: one row per item, in first-occurrence order\<close>

text \<open>
  C2. The pivot has one row per distinct item of the list: as many rows as there are
  distinct items, the row at each position built for the item at that position of the
  list of distinct items, and that list holds every item of the input once, ordered by
  the position of its first occurrence in the input.
\<close>

theorem pivot_one_row_per_item:
  "length (prepareChartData data) = card (item ` set data) \<and>
   prepareChartData data = map (make_row data) (js_unique (map item data)) \<and>
   set (js_unique (map item data)) = item ` set data \<and>
   distinct (js_unique (map item data)) \<and>
   sorted_wrt (<) (map (first_index (map item data)) (js_unique (map item data)))"
proof -
  have "length (prepareChartData data) = card (item ` set data)"
    by (simp add: prepareChartData_def length_js_unique)
  moreover have "set (js_unique (map item data)) = item ` set data"
    by (simp add: set_js_unique)
  ultimately show ?thesis
    by (simp add: prepareChartData_def distinct_js_unique first_index_order_js_unique)
qed

text \<open>Items a, b, a: two rows, a before b.\<close>

theorem pivot_one_row_per_item_witness:
  "length (prepareChartData
      [example_record ''a'' (JStr ''A'') ''Overall'' ''X'' 1 10,
       example_record ''b'' (JStr ''B'') ''Overall'' ''X'' 2 20,
       example_record ''a'' (JStr ''A'') ''Overall'' ''Y'' 3 30]) = 2 \<and>
   js_unique (map item
      [example_record ''a'' (JStr ''A'') ''Overall'' ''X'' 1 10,
       example_record ''b'' (JStr ''B'') ''Overall'' ''X'' 2 20,
       example_record ''a'' (JStr ''A'') ''Overall'' ''Y'' 3 30]) = [''a'', ''b'']"
  using pivot_one_row_per_item [of
      "[example_record ''a'' (JStr ''A'') ''Overall'' ''X'' 1 10,
        example_record ''b'' (JStr ''B'') ''Overall'' ''X'' 2 20,
        example_record ''a'' (JStr ''A'') ''Overall'' ''Y'' 3 30]"]
  by (simp add: js_unique_def set_add_def example_record_def)

subsection \<open>C3: sparse data\<close>

text \<open>
  C3, as the code has it. Take the row of item \<open>i\<close> and a group \<open>g\<close>. When no record of
  item \<open>i\<close> has group \<open>g\<close>, each of the four keys of \<open>g\<close> is absent from the row (not
  present with a null value), provided that the key is neither \<^verbatim>\<open>item\<close> nor \<^verbatim>\<open>label\<close> and
  that no record of item \<open>i\<close> of another group writes it. When some record of item \<open>i\<close> has
  group \<open>g\<close>, the three suffixed keys are set on the row, and so is the key \<open>g\<close> unless
  the group is named \<^verbatim>\<open>__proto__\<close>.
\<close>

theorem pivot_sparse_keys:
  "((\<forall>r \<in> set data. item r = i \<longrightarrow> group_key r \<noteq> g) \<and> k \<in> set (group_keys g) \<and>
      k \<noteq> ''item'' \<and> k \<noteq> ''label'' \<and> \<not> written data i k \<longrightarrow>
      k \<notin> dom (own (make_row data i))) \<and>
   (r \<in> set data \<and> item r = i \<and> group_key r = g \<longrightarrow>
      g @ ''_ci'' \<in> dom (own (make_row data i)) \<and>
      g @ ''_n'' \<in> dom (own (make_row data i)) \<and>
      g @ ''_sd'' \<in> dom (own (make_row data i)) \<and>
      (g \<noteq> ''__proto__'' \<longrightarrow> g \<in> dom (own (make_row data i))))"
proof (intro conjI impI)
  assume "(\<forall>r \<in> set data. item r = i \<longrightarrow> group_key r \<noteq> g) \<and> k \<in> set (group_keys g) \<and>
      k \<noteq> ''item'' \<and> k \<noteq> ''label'' \<and> \<not> written data i k"
  then have "own (make_row data i) k = None"
    by (simp add: own_make_row_unwritten own_initial_row_other)
  then show "k \<notin> dom (own (make_row data i))"
    by (simp add: domIff)
next
  assume a: "r \<in> set data \<and> item r = i \<and> group_key r = g"
  then have r: "r \<in> set data" and i: "i = item r" and g: "g = group_key r"
    by simp_all
  show "g @ ''_ci'' \<in> dom (own (make_row data i))"
    unfolding i g by (rule dom_make_row_written [OF r]) (simp add: domIff own_write_group_ci)
  show "g @ ''_n'' \<in> dom (own (make_row data i))"
    unfolding i g by (rule dom_make_row_written [OF r]) (simp add: domIff own_write_group_n)
  show "g @ ''_sd'' \<in> dom (own (make_row data i))"
    unfolding i g by (rule dom_make_row_written [OF r]) (simp add: domIff own_write_group_sd)
  assume "g \<noteq> ''__proto__''"
  then show "g \<in> dom (own (make_row data i))"
    unfolding i g by (intro dom_make_row_written [OF r]) (simp add: domIff own_write_group_mean)
qed

text \<open>Item b with a record for Female and none for Male.\<close>

theorem pivot_sparse_keys_witness:
  "''Male'' \<notin> dom (own (make_row
      [example_record ''b'' (JStr ''B'') ''Gender'' ''Female'' 3 30] ''b'')) \<and>
   ''Female'' \<in> dom (own (make_row
      [example_record ''b'' (JStr ''B'') ''Gender'' ''Female'' 3 30] ''b''))"
  using pivot_sparse_keys [of
      "[example_record ''b'' (JStr ''B'') ''Gender'' ''Female'' 3 30]" "''b''" "''Male''" "''Male''"
      "example_record ''b'' (JStr ''B'') ''Gender'' ''Female'' 3 30"]
    pivot_sparse_keys [of
      "[example_record ''b'' (JStr ''B'') ''Gender'' ''Female'' 3 30]" "''b''" "''Female''" "''Female''"
      "example_record ''b'' (JStr ''B'') ''Gender'' ''Female'' 3 30"]
  by (simp add: example_record_def written_def group_keys_def)

text \<open>
  As the claim is written it fails for a group whose name is a key of another group:
  item b has a record for \<^verbatim>\<open>Female\<close> and none for the group \<^verbatim>\<open>Female_n\<close> (which item c
  has), and the row of b has the key \<^verbatim>\<open>Female_n\<close>, the sample size of \<^verbatim>\<open>Female\<close>. It
  fails for the name \<^verbatim>\<open>item\<close> too: every row has that key.
\<close>

theorem pivot_sparse_keys_counterexample:
  "filter (\<lambda>r. item r = ''b'' \<and> group_key r = ''Female_n'')
      [example_record ''b'' (JStr ''B'') ''Gender'' ''Female'' 3 30,
       example_record ''c'' (JStr ''C'') ''Gender'' ''Female_n'' 4 40] = [] \<and>
   own (make_row
      [example_record ''b'' (JStr ''B'') ''Gender'' ''Female'' 3 30,
       example_record ''c'' (JStr ''C'') ''Gender'' ''Female_n'' 4 40] ''b'') ''Female_n'' = Some (JNum 30) \<and>
   filter (\<lambda>r. item r = ''b'' \<and> group_key r = ''item'')
      [example_record ''b'' (JStr ''B'') ''Gender'' ''Female'' 3 30] = [] \<and>
   own (make_row
      [example_record ''b'' (JStr ''B'') ''Gender'' ''Female'' 3 30] ''b'') ''item'' = Some (JStr ''b'')"
  by (simp add: eval_row)

subsection \<open>C4: the filter by demographic\<close>

text \<open>
  C4. Filtering by a demographic key \<open>k\<close> returns the records whose \<open>demographic\<close> is
  exactly \<open>k\<close>: every record of the result has it, every record that has it occurs in
  the result as often as in the collection, the result is a subsequence of the
  collection (the order is kept), and when no record matches the result is the empty
  list. The function is total: nothing is raised.
\<close>

theorem filter_by_demographic:
  "(\<forall>r \<in> set (filteredData records k). demographic r = k) \<and>
   (\<forall>r. demographic r = k \<longrightarrow> count_list (filteredData records k) r = count_list records r) \<and>
   subseq (filteredData records k) records \<and>
   ((\<forall>r \<in> set records. demographic r \<noteq> k) \<longrightarrow> filteredData records k = [])"
proof (intro conjI allI impI)
  show "\<forall>r \<in> set (filteredData records k). demographic r = k"
    by (simp add: filteredData_def)
next
  fix r :: summary_record
  assume "demographic r = k"
  then show "count_list (filteredData records k) r = count_list records r"
    unfolding filteredData_def by (intro count_list_filter)
next
  show "subseq (filteredData records k) records"
    unfolding filteredData_def by (rule subseq_filter_left)
next
  assume "\<forall>r \<in> set records. demographic r \<noteq> k"
  then show "filteredData records k = []"
    by (simp add: filteredData_def filter_empty_conv)
qed

text \<open>The comparison is case-sensitive, and an unknown key gives the empty list.\<close>

theorem filter_by_demographic_witness:
  "filteredData
     [example_record ''a'' (JStr ''A'') ''Overall'' ''All'' 1 10,
      example_record ''a'' (JStr ''A'') ''overall'' ''All'' 2 20,
      example_record ''b'' (JStr ''B'') ''Overall'' ''All'' 3 30] ''Overall'' =
     [example_record ''a'' (JStr ''A'') ''Overall'' ''All'' 1 10,
      example_record ''b'' (JStr ''B'') ''Overall'' ''All'' 3 30] \<and>
   filteredData
     [example_record ''a'' (JStr ''A'') ''Overall'' ''All'' 1 10,
      example_record ''a'' (JStr ''A'') ''overall'' ''All'' 2 20,
      example_record ''b'' (JStr ''B'') ''Overall'' ''All'' 3 30] ''Gender'' = []"
proof -
  have "filteredData
     [example_record ''a'' (JStr ''A'') ''Overall'' ''All'' 1 10,
      example_record ''a'' (JStr ''A'') ''overall'' ''All'' 2 20,
      example_record ''b'' (JStr ''B'') ''Overall'' ''All'' 3 30] ''Gender'' = []"
    using filter_by_demographic [of
       "[example_record ''a'' (JStr ''A'') ''Overall'' ''All'' 1 10,
         example_record ''a'' (JStr ''A'') ''overall'' ''All'' 2 20,
         example_record ''b'' (JStr ''B'') ''Overall'' ''All'' 3 30]" "''Gender''",
       THEN conjunct2, THEN conjunct2, THEN conjunct2]
    by (simp add: example_record_def)
  then show ?thesis
    by (simp add: filteredData_def example_record_def)
qed

subsection \<open>C5: the partition by category\<close>

text \<open>
  C5, as the code has it. A record of the filtered subset is in the item subset exactly
  when its item is in \<^verbatim>\<open>score_types.items\<close>, and in the scale subset exactly when its item
  is in \<^verbatim>\<open>score_types.scales\<close>: so it is in exactly one of them when its item is in
  exactly one list, and in neither, silently, when its item is in neither list. Both
  subsets keep the order of the input. They are disjoint provided that no item of the
  subset is in both lists.
\<close>

theorem partition_by_category:
  "(\<forall>r \<in> set sub.
      (r \<in> set (itemData md sub) \<longleftrightarrow> item r \<in> set (score_types_items md)) \<and>
      (r \<in> set (scaleData md sub) \<longleftrightarrow> item r \<in> set (score_types_scales md))) \<and>
   subseq (itemData md sub) sub \<and>
   subseq (scaleData md sub) sub \<and>
   ((\<forall>r \<in> set sub. \<not> (item r \<in> set (score_types_items md) \<and>
                              item r \<in> set (score_types_scales md))) \<longrightarrow>
      set (itemData md sub) \<inter> set (scaleData md sub) = {})"
  unfolding itemData_def scaleData_def by (auto simp: subseq_filter_left)

text \<open>One item, one scale and one record that the metadata does not list.\<close>

theorem partition_by_category_witness:
  "itemData \<lparr>sample_size = JNum 150, demographics = [''Overall''],
              score_types_items = [''i1''], score_types_scales = [''s1'']\<rparr>
     [example_record ''i1'' (JStr ''Item One'') ''Overall'' ''All'' 1 10,
      example_record ''s1'' (JStr ''Scale One'') ''Overall'' ''All'' 2 20,
      example_record ''zz'' (JStr ''Unlisted'') ''Overall'' ''All'' 3 30] =
     [example_record ''i1'' (JStr ''Item One'') ''Overall'' ''All'' 1 10] \<and>
   scaleData \<lparr>sample_size = JNum 150, demographics = [''Overall''],
              score_types_items = [''i1''], score_types_scales = [''s1'']\<rparr>
     [example_record ''i1'' (JStr ''Item One'') ''Overall'' ''All'' 1 10,
      example_record ''s1'' (JStr ''Scale One'') ''Overall'' ''All'' 2 20,
      example_record ''zz'' (JStr ''Unlisted'') ''Overall'' ''All'' 3 30] =
     [example_record ''s1'' (JStr ''Scale One'') ''Overall'' ''All'' 2 20] \<and>
   set (itemData \<lparr>sample_size = JNum 150, demographics = [''Overall''],
              score_types_items = [''i1''], score_types_scales = [''s1'']\<rparr>
     [example_record ''i1'' (JStr ''Item One'') ''Overall'' ''All'' 1 10,
      example_record ''s1'' (JStr ''Scale One'') ''Overall'' ''All'' 2 20,
      example_record ''zz'' (JStr ''Unlisted'') ''Overall'' ''All'' 3 30]) \<inter>
   set (scaleData \<lparr>sample_size = JNum 150, demographics = [''Overall''],
              score_types_items = [''i1''], score_types_scales = [''s1'']\<rparr>
     [example_record ''i1'' (JStr ''Item One'') ''Overall'' ''All'' 1 10,
      example_record ''s1'' (JStr ''Scale One'') ''Overall'' ''All'' 2 20,
      example_record ''zz'' (JStr ''Unlisted'') ''Overall'' ''All'' 3 30]) = {}"
  using partition_by_category [of
     "[example_record ''i1'' (JStr ''Item One'') ''Overall'' ''All'' 1 10,
      example_record ''s1'' (JStr ''Scale One'') ''Overall'' ''All'' 2 20,
      example_record ''zz'' (JStr ''Unlisted'') ''Overall'' ''All'' 3 30]"
     "\<lparr>sample_size = JNum 150, demographics = [''Overall''],
              score_types_items = [''i1''], score_types_scales = [''s1'']\<rparr>"]
  by (simp add: itemData_def scaleData_def example_record_def)

text \<open>
  As the claim is written, for every metadata, disjointness fails: the two filters are
  independent, and a record whose item is in both lists is in both subsets.
\<close>

theorem partition_overlap_counterexample:
  "set (itemData \<lparr>sample_size = JNum 150, demographics = [''Overall''],
              score_types_items = [''x''], score_types_scales = [''x'']\<rparr>
     [example_record ''x'' (JStr ''X'') ''Overall'' ''All'' 1 10]) \<inter>
   set (scaleData \<lparr>sample_size = JNum 150, demographics = [''Overall''],
              score_types_items = [''x''], score_types_scales = [''x'']\<rparr>
     [example_record ''x'' (JStr ''X'') ''Overall'' ''All'' 1 10]) \<noteq> {}"
  by (simp add: itemData_def scaleData_def example_record_def)

subsection \<open>C6: group discovery\<close>

text \<open>
  C6. Group discovery returns the distinct values of the field \<open>group\<close> of its input: the
  same set of values, no value twice, ordered by the position of the first occurrence in
  the input (not sorted). It is a function of the input list.
\<close>

theorem groups_first_occurrence:
  "set (groups sub) = group_key ` set sub \<and>
   distinct (groups sub) \<and>
   sorted_wrt (<) (map (first_index (map group_key sub)) (groups sub))"
  by (simp add: groups_def set_js_unique distinct_js_unique first_index_order_js_unique)

text \<open>Groups met in the order Male, Female, Male.\<close>

theorem groups_first_occurrence_witness:
  "groups
     [example_record ''a'' (JStr ''A'') ''Gender'' ''Male'' 1 10,
      example_record ''a'' (JStr ''A'') ''Gender'' ''Female'' 2 20,
      example_record ''b'' (JStr ''B'') ''Gender'' ''Male'' 3 30] = [''Male'', ''Female'']"
  using groups_first_occurrence [of
     "[example_record ''a'' (JStr ''A'') ''Gender'' ''Male'' 1 10,
      example_record ''a'' (JStr ''A'') ''Gender'' ''Female'' 2 20,
      example_record ''b'' (JStr ''B'') ''Gender'' ''Male'' 3 30]"]
  by (simp add: groups_def js_unique_def set_add_def example_record_def)

subsection \<open>C7: the groups of a recomputation\<close>

text \<open>
  C7, as the code has it. For every selection of demographic key and view, the group
  list of the recomputation is the list of the distinct groups, in first-occurrence
  order, of the whole subset filtered by demographic, whichever view is selected; the
  pivot is run on the subset of the selected category, and every group of that subset
  is in the group list.
\<close>

theorem groups_of_whole_filtered_subset:
  "dash_groups (recompute records md d v) = groups (filteredData records d) \<and>
   dash_chartData (recompute records md d v) =
     prepareChartData (selected_subset md v (filteredData records d)) \<and>
   set (groups (selected_subset md v (filteredData records d))) \<subseteq>
     set (dash_groups (recompute records md d v))"
  by (auto simp: recompute_def Let_def selected_subset_def groups_def set_js_unique itemData_def
      scaleData_def)

text \<open>An item of group Male and a scale of group Female, in the view of the items.\<close>

theorem groups_of_whole_filtered_subset_witness:
  "dash_groups (recompute
      [example_record ''i1'' (JStr ''Item One'') ''Gender'' ''Male'' 3 150,
       example_record ''s1'' (JStr ''Scale One'') ''Gender'' ''Female'' 2 50]
      \<lparr>sample_size = JNum 200, demographics = [''Overall'', ''Gender''],
        score_types_items = [''i1''], score_types_scales = [''s1'']\<rparr>
      ''Gender'' ''items'') = [''Male'', ''Female'']"
  using groups_of_whole_filtered_subset [of
      "[example_record ''i1'' (JStr ''Item One'') ''Gender'' ''Male'' 3 150,
        example_record ''s1'' (JStr ''Scale One'') ''Gender'' ''Female'' 2 50]"
      "\<lparr>sample_size = JNum 200, demographics = [''Overall'', ''Gender''],
        score_types_items = [''i1''], score_types_scales = [''s1'']\<rparr>"
      "''Gender''" "''items''"]
  by (simp add: recompute_def Let_def groups_def filteredData_def js_unique_def set_add_def example_record_def)

text \<open>
  As the claim is written it fails: in the same example the item subset has the one
  group Male, and the group list is Male, Female.
\<close>

theorem groups_not_of_category_counterexample:
  "dash_groups (recompute
      [example_record ''i1'' (JStr ''Item One'') ''Gender'' ''Male'' 3 150,
       example_record ''s1'' (JStr ''Scale One'') ''Gender'' ''Female'' 2 50]
      \<lparr>sample_size = JNum 200, demographics = [''Overall'', ''Gender''],
        score_types_items = [''i1''], score_types_scales = [''s1'']\<rparr>
      ''Gender'' ''items'')
   \<noteq> groups (selected_subset
      \<lparr>sample_size = JNum 200, demographics = [''Overall'', ''Gender''],
        score_types_items = [''i1''], score_types_scales = [''s1'']\<rparr>
      ''items''
      (filteredData
        [example_record ''i1'' (JStr ''Item One'') ''Gender'' ''Male'' 3 150,
         example_record ''s1'' (JStr ''Scale One'') ''Gender'' ''Female'' 2 50] ''Gender''))"
  by (simp add: recompute_def Let_def selected_subset_def groups_def filteredData_def itemData_def
      js_unique_def set_add_def example_record_def)

subsection \<open>C8: the item and the label of a row\<close>

text \<open>
  C8, as the code has it. Let \<open>r\<close> be the first record of the list with its item. In the
  row of that item the field \<open>item\<close> is the item key, provided that no record of the item
  has a group named \<^verbatim>\<open>item\<close>; and the field \<open>label\<close> is the \<open>item_label\<close> of \<open>r\<close> when that
  is truthy and the item key otherwise (when it is absent, null, the empty string, zero
  or false), provided that no record of the item has a group named \<^verbatim>\<open>label\<close>.
\<close>

theorem pivot_item_and_label:
  assumes "data = pre @ r # post"
    and "\<forall>r' \<in> set pre. item r' \<noteq> item r"
  shows "((\<forall>r' \<in> set data. item r' = item r \<longrightarrow> group_key r' \<noteq> ''item'') \<longrightarrow>
            own (make_row data (item r)) ''item'' = Some (JStr (item r))) \<and>
         ((\<forall>r' \<in> set data. item r' = item r \<longrightarrow> group_key r' \<noteq> ''label'') \<longrightarrow>
            own (make_row data (item r)) ''label'' =
              Some (if truthy (item_label r) then item_label r else JStr (item r)))"
  using make_row_item [of data "item r"] make_row_label [OF assms(2), of post]
  by (simp add: assms(1) js_or_def)

text \<open>The label of the first of two records of i1, and the fallback for i2, which has none.\<close>

theorem pivot_item_and_label_witness:
  "own (make_row [example_record ''i1'' (JStr ''Item One'') ''Overall'' ''All'' 3 150,
                  example_record ''i1'' (JStr ''Other'') ''Overall'' ''Some'' 2 50,
                  example_record ''i2'' JUndefined ''Overall'' ''All'' 2 50] ''i1'') ''label''
     = Some (JStr ''Item One'') \<and>
   own (make_row [example_record ''i1'' (JStr ''Item One'') ''Overall'' ''All'' 3 150,
                  example_record ''i1'' (JStr ''Other'') ''Overall'' ''Some'' 2 50,
                  example_record ''i2'' JUndefined ''Overall'' ''All'' 2 50] ''i1'') ''item''
     = Some (JStr ''i1'') \<and>
   own (make_row [example_record ''i1'' (JStr ''Item One'') ''Overall'' ''All'' 3 150,
                  example_record ''i1'' (JStr ''Other'') ''Overall'' ''Some'' 2 50,
                  example_record ''i2'' JUndefined ''Overall'' ''All'' 2 50] ''i2'') ''label''
     = Some (JStr ''i2'')"
  using pivot_item_and_label [of
      "[example_record ''i1'' (JStr ''Item One'') ''Overall'' ''All'' 3 150,
        example_record ''i1'' (JStr ''Other'') ''Overall'' ''Some'' 2 50,
        example_record ''i2'' JUndefined ''Overall'' ''All'' 2 50]"
      "[]" "example_record ''i1'' (JStr ''Item One'') ''Overall'' ''All'' 3 150"
      "[example_record ''i1'' (JStr ''Other'') ''Overall'' ''Some'' 2 50,
        example_record ''i2'' JUndefined ''Overall'' ''All'' 2 50]"]
    pivot_item_and_label [of
      "[example_record ''i1'' (JStr ''Item One'') ''Overall'' ''All'' 3 150,
        example_record ''i1'' (JStr ''Other'') ''Overall'' ''Some'' 2 50,
        example_record ''i2'' JUndefined ''Overall'' ''All'' 2 50]"
      "[example_record ''i1'' (JStr ''Item One'') ''Overall'' ''All'' 3 150,
        example_record ''i1'' (JStr ''Other'') ''Overall'' ''Some'' 2 50]"
      "example_record ''i2'' JUndefined ''Overall'' ''All'' 2 50" "[]"]
  by (simp add: example_record_def)

text \<open>
  As the claim is written it fails twice: a label that is present and empty is replaced
  by the item key, and a record of a group named \<^verbatim>\<open>item\<close> stores its mean in the field
  \<open>item\<close>.
\<close>

theorem pivot_item_and_label_counterexample:
  "own (make_row [example_record ''i1'' (JStr '''') ''Overall'' ''All'' 3 150] ''i1'') ''label''
     \<noteq> Some (item_label (example_record ''i1'' (JStr '''') ''Overall'' ''All'' 3 150)) \<and>
   own (make_row [example_record ''i1'' (JStr '''') ''Overall'' ''All'' 3 150] ''i1'') ''label''
     = Some (JStr ''i1'') \<and>
   own (make_row [example_record ''i1'' (JStr ''Item One'') ''Overall'' ''item'' 3 150] ''i1'') ''item''
     \<noteq> Some (JStr ''i1'') \<and>
   own (make_row [example_record ''i1'' (JStr ''Item One'') ''Overall'' ''item'' 3 150] ''i1'') ''item''
     = Some (JNum 3)"
  by (simp add: eval_row)

subsection \<open>C9: a failed load\<close>

text \<open>
  C9. When one of the two reads is rejected, the loaded state renders the error view,
  whatever the selection is set to, so that neither the filter nor group discovery nor
  the pivot runs; in every state that a render can see during the load the summaries and
  the metadata have their initial values and the view is the loading view or the error
  view. When both reads are fulfilled, the loaded state holds both values and renders
  the dashboard. A render that reaches the dashboard, in any state of any load, sees the
  values of both reads. No reshaping ever sees a partly loaded store: in no state of any
  load does a render get behind the two guards and throw on the missing metadata, and
  in every state that is not loading and has no error both values are written.
\<close>

theorem load_failure_is_terminal:
  "(summariesRead = Rejected \<or> metadataRead = Rejected \<longrightarrow>
      render (loaded_state summariesRead metadataRead) = Inr (ErrorView load_failure_message) \<and>
      render ((loaded_state summariesRead metadataRead)
                \<lparr>selectedDemographic := d, selectedView := v\<rparr>) =
        Inr (ErrorView load_failure_message) \<and>
      summaries (load_state summariesRead metadataRead k) = [] \<and>
      metadata (load_state summariesRead metadataRead k) = None \<and>
      render (load_state summariesRead metadataRead k) \<in>
        {Inr LoadingView, Inr (ErrorView load_failure_message)}) \<and>
   (summariesRead = Fulfilled s \<and> metadataRead = Fulfilled m \<longrightarrow>
      summaries (loaded_state summariesRead metadataRead) = s \<and>
      metadata (loaded_state summariesRead metadataRead) = Some m \<and>
      render (loaded_state summariesRead metadataRead) =
        Inr (DashboardView (recompute s m ''Overall'' ''items''))) \<and>
   (render (load_state summariesRead metadataRead k) = Inr (DashboardView dash) \<longrightarrow>
      (\<exists>s' m'. summariesRead = Fulfilled s' \<and> metadataRead = Fulfilled m' \<and>
         summaries (load_state summariesRead metadataRead k) = s' \<and>
         metadata (load_state summariesRead metadataRead k) = Some m')) \<and>
   render (load_state summariesRead metadataRead k) \<noteq> Inl TypeError \<and>
   (\<not> loading (load_state summariesRead metadataRead k) \<and>
    error (load_state summariesRead metadataRead k) = None \<longrightarrow>
      (\<exists>s' m'. summariesRead = Fulfilled s' \<and> metadataRead = Fulfilled m' \<and>
         summaries (load_state summariesRead metadataRead k) = s' \<and>
         metadata (load_state summariesRead metadataRead k) = Some m'))"
proof (intro conjI impI)
  assume f: "summariesRead = Rejected \<or> metadataRead = Rejected"
  show "render (loaded_state summariesRead metadataRead) = Inr (ErrorView load_failure_message)"
    by (simp add: loaded_state_failure [OF f] render_def initial_state_def message_not_empty)
  show "render ((loaded_state summariesRead metadataRead)
                \<lparr>selectedDemographic := d, selectedView := v\<rparr>) =
        Inr (ErrorView load_failure_message)"
    by (simp add: loaded_state_failure [OF f] render_def initial_state_def message_not_empty)
  show "summaries (load_state summariesRead metadataRead k) = []"
    by (simp add: load_state_failure [OF f] initial_state_def)
  show "metadata (load_state summariesRead metadataRead k) = None"
    by (simp add: load_state_failure [OF f] initial_state_def)
  show "render (load_state summariesRead metadataRead k) \<in>
        {Inr LoadingView, Inr (ErrorView load_failure_message)}"
    by (simp add: load_state_failure [OF f] render_def initial_state_def message_not_empty)
next
  assume ok: "summariesRead = Fulfilled s \<and> metadataRead = Fulfilled m"
  show "summaries (loaded_state summariesRead metadataRead) = s"
    by (simp add: ok loaded_state_success initial_state_def)
  show "metadata (loaded_state summariesRead metadataRead) = Some m"
    by (simp add: ok loaded_state_success initial_state_def)
  show "render (loaded_state summariesRead metadataRead) =
        Inr (DashboardView (recompute s m ''Overall'' ''items''))"
    by (simp add: ok loaded_state_success initial_state_def render_def dashboard_view_def)
next
  assume dash: "render (load_state summariesRead metadataRead k) = Inr (DashboardView dash)"
  have both: "\<exists>s m. summariesRead = Fulfilled s \<and> metadataRead = Fulfilled m"
  proof (rule ccontr)
    assume "\<not> (\<exists>s m. summariesRead = Fulfilled s \<and> metadataRead = Fulfilled m)"
    then have f: "summariesRead = Rejected \<or> metadataRead = Rejected"
      by (cases summariesRead; cases metadataRead) simp_all
    from dash show False
      by (simp add: load_state_failure [OF f] render_def initial_state_def message_not_empty
          split: if_splits)
  qed
  then obtain s m where ok: "summariesRead = Fulfilled s" "metadataRead = Fulfilled m"
    by blast
  have "loading (load_state summariesRead metadataRead k)" if "k = 0 \<or> k = 1 \<or> k = 2"
    using that by (auto simp: ok load_state_success initial_state_def)
  moreover have "\<not> loading (load_state summariesRead metadataRead k)"
    using dash by (cases "loading (load_state summariesRead metadataRead k)") (simp_all add: render_def)
  ultimately have "\<not> (k = 0 \<or> k = 1 \<or> k = 2)"
    by blast
  then have st: "load_state summariesRead metadataRead k =
      initial_state\<lparr>summaries := s, metadata := Some m, loading := False\<rparr>"
    by (simp add: ok load_state_success)
  show "\<exists>s' m'. summariesRead = Fulfilled s' \<and> metadataRead = Fulfilled m' \<and>
         summaries (load_state summariesRead metadataRead k) = s' \<and>
         metadata (load_state summariesRead metadataRead k) = Some m'"
    by (simp add: st) (simp add: ok)
next
  show "render (load_state summariesRead metadataRead k) \<noteq> Inl TypeError"
    by (rule render_load_state_no_throw)
next
  assume "\<not> loading (load_state summariesRead metadataRead k) \<and>
    error (load_state summariesRead metadataRead k) = None"
  then show "\<exists>s' m'. summariesRead = Fulfilled s' \<and> metadataRead = Fulfilled m' \<and>
         summaries (load_state summariesRead metadataRead k) = s' \<and>
         metadata (load_state summariesRead metadataRead k) = Some m'"
    by (intro passed_guards_both_written) simp_all
qed

text \<open>
  The summaries rejected, and the metadata rejected; and, with both reads fulfilled, the
  state between the two writes, which still renders the loading view.
\<close>

theorem load_failure_is_terminal_witness:
  "render (loaded_state Rejected
      (Fulfilled \<lparr>sample_size = JNum 200, demographics = [''Overall''],
                   score_types_items = [''i1''], score_types_scales = []\<rparr>))
     = Inr (ErrorView load_failure_message) \<and>
   render (loaded_state
      (Fulfilled [example_record ''i1'' (JStr ''Item One'') ''Overall'' ''All'' 3 150]) Rejected)
     = Inr (ErrorView load_failure_message) \<and>
   summaries (load_state
      (Fulfilled [example_record ''i1'' (JStr ''Item One'') ''Overall'' ''All'' 3 150])
      (Fulfilled \<lparr>sample_size = JNum 200, demographics = [''Overall''],
                   score_types_items = [''i1''], score_types_scales = []\<rparr>) 1)
     = [example_record ''i1'' (JStr ''Item One'') ''Overall'' ''All'' 3 150] \<and>
   metadata (load_state
      (Fulfilled [example_record ''i1'' (JStr ''Item One'') ''Overall'' ''All'' 3 150])
      (Fulfilled \<lparr>sample_size = JNum 200, demographics = [''Overall''],
                   score_types_items = [''i1''], score_types_scales = []\<rparr>) 1)
     = None \<and>
   render (load_state
      (Fulfilled [example_record ''i1'' (JStr ''Item One'') ''Overall'' ''All'' 3 150])
      (Fulfilled \<lparr>sample_size = JNum 200, demographics = [''Overall''],
                   score_types_items = [''i1''], score_types_scales = []\<rparr>) 1)
     = Inr LoadingView"
proof -
  have a: "render (loaded_state Rejected
      (Fulfilled \<lparr>sample_size = JNum 200, demographics = [''Overall''],
                   score_types_items = [''i1''], score_types_scales = []\<rparr>))
     = Inr (ErrorView load_failure_message)"
    using load_failure_is_terminal [of Rejected
      "Fulfilled \<lparr>sample_size = JNum 200, demographics = [''Overall''],
                   score_types_items = [''i1''], score_types_scales = []\<rparr>"]
    by simp
  have b: "render (loaded_state
      (Fulfilled [example_record ''i1'' (JStr ''Item One'') ''Overall'' ''All'' 3 150]) Rejected)
     = Inr (ErrorView load_failure_message)"
    using load_failure_is_terminal [of
      "Fulfilled [example_record ''i1'' (JStr ''Item One'') ''Overall'' ''All'' 3 150]" Rejected]
    by simp
  have c: "summaries (load_state
      (Fulfilled [example_record ''i1'' (JStr ''Item One'') ''Overall'' ''All'' 3 150])
      (Fulfilled \<lparr>sample_size = JNum 200, demographics = [''Overall''],
                   score_types_items = [''i1''], score_types_scales = []\<rparr>) 1)
     = [example_record ''i1'' (JStr ''Item One'') ''Overall'' ''All'' 3 150]"
    by (simp add: load_state_success initial_state_def)
  have d: "metadata (load_state
      (Fulfilled [example_record ''i1'' (JStr ''Item One'') ''Overall'' ''All'' 3 150])
      (Fulfilled \<lparr>sample_size = JNum 200, demographics = [''Overall''],
                   score_types_items = [''i1''], score_types_scales = []\<rparr>) 1)
     = None"
    by (simp add: load_state_success initial_state_def)
  have e: "render (load_state
      (Fulfilled [example_record ''i1'' (JStr ''Item One'') ''Overall'' ''All'' 3 150])
      (Fulfilled \<lparr>sample_size = JNum 200, demographics = [''Overall''],
                   score_types_items = [''i1''], score_types_scales = []\<rparr>) 1)
     = Inr LoadingView"
    by (simp add: render_load_state_success)
  show ?thesis
    by (intro conjI) (rule a b c d e)+
qed

subsection \<open>C10: a falsy label\<close>

text \<open>
  C10, as the code has it. When the first record of an item has a falsy \<open>item_label\<close>
  (present and empty, null, zero or false, as well as absent), the label of the row is
  the item key, provided that no record of the item has a group named \<^verbatim>\<open>label\<close>.
\<close>

theorem falsy_label_falls_back:
  assumes "data = pre @ r # post"
    and "\<forall>r' \<in> set pre. item r' \<noteq> item r"
    and "\<not> truthy (item_label r)"
    and "\<forall>r' \<in> set data. item r' = item r \<longrightarrow> group_key r' \<noteq> ''label''"
  shows "own (make_row data (item r)) ''label'' = Some (JStr (item r))"
  using make_row_label [OF assms(2), of post] assms(3,4)
  by (simp add: assms(1) js_or_def)

text \<open>A label that is present and empty.\<close>

theorem falsy_label_falls_back_witness:
  "\<not> truthy (JStr '''') \<and>
   own (make_row [example_record ''i1'' (JStr '''') ''Overall'' ''All'' 3 150] ''i1'') ''label''
     = Some (JStr ''i1'')"
  using falsy_label_falls_back [of
      "[example_record ''i1'' (JStr '''') ''Overall'' ''All'' 3 150]" "[]"
      "example_record ''i1'' (JStr '''') ''Overall'' ''All'' 3 150" "[]"]
  by (simp add: example_record_def)

text \<open>
  As the claim is written, for every subset, it fails when the record's group is named
  \<^verbatim>\<open>label\<close>: the mean is stored over the label.
\<close>

theorem falsy_label_collision_counterexample:
  "\<not> truthy (item_label (example_record ''i1'' (JStr '''') ''Overall'' ''label'' 3 150)) \<and>
   own (make_row [example_record ''i1'' (JStr '''') ''Overall'' ''label'' 3 150] ''i1'') ''label''
     \<noteq> Some (JStr ''i1'') \<and>
   own (make_row [example_record ''i1'' (JStr '''') ''Overall'' ''label'' 3 150] ''i1'') ''label''
     = Some (JNum 3)"
  by (simp add: eval_row)

end
